theory Spec2Isabelle
  imports Main "HOL-Library.Word"
begin

unbundle bit_operations_syntax

section \<open>The module \<open>sui::randomness\<close> (crates/sui-framework/sources/randomness.move)\<close>

text \<open>
  A shallow embedding of the Move module. A Move struct is a record, \<open>vector<u8>\<close> is a
  list of 8-bit words, \<open>u64\<close> is a 64-bit word, \<open>option::Option\<close> is \<open>option\<close>. An
  \<open>assert!\<close> that fails aborts the call with its code: the embedding of \<open>set\<close> returns
  the abort code as a value. The native functions the module calls are either given
  their documented meaning (vectors, BCS, SHA3-256), or modelled from what the spec
  says of the ledger runtime (the context, the allocation of identities, ownership),
  or, for the threshold-BLS verifier of the epoch, taken as a parameter.
\<close>

subsection \<open>Move values and the library functions the module calls\<close>

type_synonym u8 = "8 word"
type_synonym u64 = "64 word"

text \<open>
  A Move \<open>address\<close> is a byte array of one fixed length, a constant of the build which
  the sources of this module do not give: it is modelled by its bytes.
\<close>

type_synonym address = "u8 list"

text \<open>\<open>sui::object\<close>: \<open>struct ID { bytes: address }\<close> and \<open>struct UID { id: ID }\<close>.\<close>

record ID =
  bytes :: address

record UID =
  uid_id :: ID

text \<open>\<open>std::vector::append(&mut lhs, other)\<close>: \<open>other\<close> is pushed at the end of \<open>lhs\<close>.\<close>

definition vector_append :: "'a list \<Rightarrow> 'a list \<Rightarrow> 'a list" where
  "vector_append lhs other = lhs @ other"

text \<open>
  \<open>sui::bcs::to_bytes\<close> is a native function; its implementation is not among the
  sources of this module. BCS, the serialisation format it implements, writes an
  unsigned integer of fixed size as its bytes, the least significant byte first
  (\<open>le_bytes n w\<close> are the \<open>n\<close> low bytes of \<open>w\<close> in that order), and an \<open>address\<close> as
  its bytes, without a length prefix.
\<close>

primrec le_bytes :: "nat \<Rightarrow> u64 \<Rightarrow> u8 list" where
  "le_bytes 0 w = []"
| "le_bytes (Suc n) w = ucast w # le_bytes n (drop_bit 8 w)"

definition bcs_to_bytes_u64 :: "u64 \<Rightarrow> u8 list" where
  "bcs_to_bytes_u64 w = le_bytes 8 w"

definition bcs_to_bytes_address :: "address \<Rightarrow> u8 list" where
  "bcs_to_bytes_address a = a"

text \<open>
  \<open>sui::object::id(obj)\<close> and \<open>sui::object::id_to_bytes(id)\<close>, the latter being
  \<open>bcs::to_bytes(&id.bytes)\<close>. \<open>object::id\<close> reads the \<open>ID\<close> in the \<open>UID\<close> of any
  object; here it is given the \<open>UID\<close>.
\<close>

definition object_id :: "UID \<Rightarrow> ID" where
  "object_id uid = uid_id uid"

definition id_to_bytes :: "ID \<Rightarrow> u8 list" where
  "id_to_bytes i = bcs_to_bytes_address (bytes i)"

subsection \<open>\<open>std::hash::sha3_256\<close>\<close>

text \<open>
  Modelled from the spec: \<open>std::hash::sha3_256\<close> is a native function whose
  implementation is not among the sources. The spec calls it the fixed-size
  cryptographic digest \<open>sha3_256\<close> of the signature bytes; it is defined here as the
  function of that name of FIPS 202: the sponge over Keccak-f[1600] with a rate of 136
  bytes, the padding \<open>0x06 .. 0x80\<close> and an output of 32 bytes. The state is the list of
  its 25 lanes, lane \<open>(x, y)\<close> at index \<open>x + 5 * y\<close>.
\<close>

definition rotl64 :: "u64 \<Rightarrow> nat \<Rightarrow> u64" where
  "rotl64 w n =
     (if n mod 64 = 0 then w else push_bit (n mod 64) w OR drop_bit (64 - n mod 64) w)"

definition keccak_rotc :: "nat list" where
  "keccak_rotc =
     [ 0,  1, 62, 28, 27,
      36, 44,  6, 55, 20,
       3, 10, 43, 25, 39,
      41, 45, 15, 21,  8,
      18,  2, 61, 56, 14]"

definition keccak_rndc :: "u64 list" where
  "keccak_rndc =
     [0x0000000000000001, 0x0000000000008082, 0x800000000000808A, 0x8000000080008000,
      0x000000000000808B, 0x0000000080000001, 0x8000000080008081, 0x8000000000008009,
      0x000000000000008A, 0x0000000000000088, 0x0000000080008009, 0x000000008000000A,
      0x000000008000808B, 0x800000000000008B, 0x8000000000008089, 0x8000000000008003,
      0x8000000000008002, 0x8000000000000080, 0x000000000000800A, 0x800000008000000A,
      0x8000000080008081, 0x8000000000008080, 0x0000000080000001, 0x8000000080008008]"

definition theta_c :: "u64 list \<Rightarrow> nat \<Rightarrow> u64" where
  "theta_c a x = a ! x XOR a ! (x + 5) XOR a ! (x + 10) XOR a ! (x + 15) XOR a ! (x + 20)"

definition theta :: "u64 list \<Rightarrow> u64 list" where
  "theta a =
     (let c = map (theta_c a) [0..<5];
          d = map (\<lambda>x. c ! ((x + 4) mod 5) XOR rotl64 (c ! ((x + 1) mod 5)) 1) [0..<5]
      in map (\<lambda>i. a ! i XOR d ! (i mod 5)) [0..<25])"

definition rho_pi :: "u64 list \<Rightarrow> u64 list" where
  "rho_pi a =
     map (\<lambda>i. let x = i mod 5; y = i div 5; src = (x + 3 * y) mod 5 + 5 * x
              in rotl64 (a ! src) (keccak_rotc ! src)) [0..<25]"

definition chi :: "u64 list \<Rightarrow> u64 list" where
  "chi b =
     map (\<lambda>i. let x = i mod 5; row = 5 * (i div 5)
              in b ! i XOR (NOT (b ! (row + (x + 1) mod 5)) AND b ! (row + (x + 2) mod 5)))
         [0..<25]"

definition iota :: "u64 \<Rightarrow> u64 list \<Rightarrow> u64 list" where
  "iota rc a = a[0 := a ! 0 XOR rc]"

definition keccak_round :: "u64 \<Rightarrow> u64 list \<Rightarrow> u64 list" where
  "keccak_round rc a = iota rc (chi (rho_pi (theta a)))"

definition keccak_f1600 :: "u64 list \<Rightarrow> u64 list" where
  "keccak_f1600 a = fold keccak_round keccak_rndc a"

definition lane_of_bytes :: "u8 list \<Rightarrow> u64" where
  "lane_of_bytes bs = foldr (\<lambda>b w. ucast b OR push_bit 8 w) bs 0"

definition sha3_256_rate :: nat where
  "sha3_256_rate = 136"

definition sha3_pad :: "u8 list \<Rightarrow> u8 list" where
  "sha3_pad m =
     (let q = sha3_256_rate - length m mod sha3_256_rate
      in if q = 1 then m @ [0x86] else m @ [0x06] @ replicate (q - 2) 0 @ [0x80])"

definition absorb_block :: "u64 list \<Rightarrow> u8 list \<Rightarrow> u64 list" where
  "absorb_block a blk =
     keccak_f1600
       (map (\<lambda>i. if i < sha3_256_rate div 8
                  then a ! i XOR lane_of_bytes (take 8 (drop (8 * i) blk)) else a ! i)
            [0..<25])"

definition sha3_256 :: "u8 list \<Rightarrow> u8 list" where
  "sha3_256 m =
     (let p = sha3_pad m;
          blocks = map (\<lambda>j. take sha3_256_rate (drop (sha3_256_rate * j) p))
                       [0..<length p div sha3_256_rate];
          a = fold (\<lambda>blk a. absorb_block a blk) blocks (replicate 25 0)
      in concat (map (\<lambda>i. le_bytes 8 (a ! i)) [0, 1, 2, 3]))"

subsection \<open>The ledger runtime\<close>

text \<open>
  Modelled from the spec: \<open>sui::tx_context\<close>, \<open>sui::object::new\<close>, \<open>sui::object::delete\<close>
  and \<open>sui::transfer\<close> are not among the sources. The spec says of the runtime that it
  "supplies object identity allocation, the current epoch" and ownership, that an
  identity is "globally unique", and that \<open>new\<close> returns "a fresh object with a freshly
  allocated identity" and "allocates one new identity in the runtime's object space".
  The context holds the current epoch and the object space: the identities allocated so
  far, the newest first.
\<close>

record TxContext =
  current_epoch :: u64
  object_space :: "ID list"

definition tx_context_epoch :: "TxContext \<Rightarrow> u64" where
  "tx_context_epoch ctx = current_epoch ctx"

text \<open>
  Modelled from the spec: the identity that \<open>object::new\<close> allocates is one that is not
  in the object space. The runtime of the model reads an address as a number, the most
  significant byte first, and allocates the address of the number that follows the
  largest one in the object space, written in 20 bytes, or in more when it needs them.
\<close>

definition address_to_nat :: "address \<Rightarrow> nat" where
  "address_to_nat a = foldl (\<lambda>n b. 256 * n + unat b) 0 a"

fun nat_to_bytes :: "nat \<Rightarrow> u8 list" where
  "nat_to_bytes n =
     (if n < 256 then [of_nat n] else nat_to_bytes (n div 256) @ [of_nat (n mod 256)])"

definition nat_to_address :: "nat \<Rightarrow> address" where
  "nat_to_address n = replicate (20 - length (nat_to_bytes n)) 0 @ nat_to_bytes n"

definition largest_identity :: "ID list \<Rightarrow> nat" where
  "largest_identity ids = foldr (\<lambda>i m. max (address_to_nat (bytes i)) m) ids 0"

definition unused_identity :: "ID list \<Rightarrow> ID" where
  "unused_identity ids = \<lparr>bytes = nat_to_address (Suc (largest_identity ids))\<rparr>"

definition object_new :: "TxContext \<Rightarrow> UID \<times> TxContext" where
  "object_new ctx =
     (let i = unused_identity (object_space ctx)
      in (\<lparr>uid_id = i\<rparr>, ctx\<lparr>object_space := i # object_space ctx\<rparr>))"

text \<open>
  Modelled from the spec: \<open>transfer::transfer\<close> "hands exclusive ownership to one
  address", \<open>transfer::share_object\<close> "converts the object into a form mutable by any
  party", and \<open>object::delete\<close> "deallocates the object's identity". Each takes the
  object (or its \<open>UID\<close>) by value; what the runtime then holds is the value returned here.
\<close>

datatype ownership = InTransaction | AddressOwner address | Shared

definition transfer_transfer :: "'a \<Rightarrow> address \<Rightarrow> ownership \<times> 'a" where
  "transfer_transfer obj recipient = (AddressOwner recipient, obj)"

definition transfer_share_object :: "'a \<Rightarrow> ownership \<times> 'a" where
  "transfer_share_object obj = (Shared, obj)"

definition object_delete :: "UID \<Rightarrow> ID" where
  "object_delete uid = uid_id uid"

subsection \<open>The module\<close>

text \<open>The abort codes and the domain tag \<open>b"randomness"\<close>.\<close>

definition EInvalidSignature :: u64 where
  "EInvalidSignature = 0"

definition EAlreadySet :: u64 where
  "EAlreadySet = 1"

definition Domain_tag :: "u8 list" where
  "Domain_tag = map of_char ''randomness''"

text \<open>
  \<open>struct Randomness<phantom T> has key { id: UID, epoch: u64, value: Option<vector<u8>> }\<close>.
  The phantom parameter has no runtime representation. The fields carry a suffix: the
  module's accessor functions have their names.
\<close>

record Randomness =
  id_field :: UID
  epoch_field :: u64
  value_field :: "u8 list option"

text \<open>
  \<open>new\<close>: the fields are initialised in the order written, so the epoch is read from the
  context after \<open>object::new\<close> has changed it. The context is \<open>&mut\<close>: it is returned.
\<close>

definition new :: "'w \<Rightarrow> TxContext \<Rightarrow> Randomness \<times> TxContext" where
  "new w ctx =
     (let (uid, ctx1) = object_new ctx
      in (\<lparr>id_field = uid, epoch_field = tx_context_epoch ctx1, value_field = None\<rparr>, ctx1))"

definition transfer :: "Randomness \<Rightarrow> address \<Rightarrow> ownership \<times> Randomness" where
  "transfer self recipient = transfer_transfer self recipient"

definition share_object :: "Randomness \<Rightarrow> ownership \<times> Randomness" where
  "share_object self = transfer_share_object self"

definition to_bytes :: "u8 list \<Rightarrow> u64 \<Rightarrow> ID \<Rightarrow> u8 list" where
  "to_bytes domain epoch i =
     (let buffer = [];
          domain = domain;
          buffer = vector_append buffer domain;
          buffer = vector_append buffer (bcs_to_bytes_u64 epoch);
          buffer = vector_append buffer (id_to_bytes i)
      in buffer)"

text \<open>
  \<open>set\<close> takes \<open>&mut self\<close> and may abort. Its run is the record of: how it ended (\<open>Inl\<close>
  the abort code, \<open>Inr ()\<close> a normal return), the object behind \<open>self\<close> when it ended,
  and the calls it made to \<open>native_verify_tbls_signature\<close>, in order, each with its
  arguments. The verifier is the parameter \<open>verify\<close>.
\<close>

record run =
  ended :: "u64 + unit"
  self_after :: Randomness
  verifier_calls :: "(u64 \<times> u8 list \<times> u8 list) list"

definition set_randomness ::
  "(u64 \<Rightarrow> u8 list \<Rightarrow> u8 list \<Rightarrow> bool) \<Rightarrow> Randomness \<Rightarrow> u8 list \<Rightarrow> run" where
  "set_randomness verify self sig =
     (if \<not> Option.is_none (value_field self)
      then \<lparr>ended = Inl EAlreadySet, self_after = self, verifier_calls = []\<rparr>
      else
        let msg = to_bytes Domain_tag (epoch_field self) (object_id (id_field self)) in
        if \<not> verify (epoch_field self) msg sig
        then \<lparr>ended = Inl EInvalidSignature, self_after = self,
              verifier_calls = [(epoch_field self, msg, sig)]\<rparr>
        else
          let hashed = sha3_256 sig in
          \<lparr>ended = Inr (), self_after = self\<lparr>value_field := Some hashed\<rparr>,
           verifier_calls = [(epoch_field self, msg, sig)]\<rparr>)"

definition destroy :: "Randomness \<Rightarrow> ID" where
  "destroy r = object_delete (id_field r)"

definition epoch :: "Randomness \<Rightarrow> u64" where
  "epoch self = epoch_field self"

definition value_randomness :: "Randomness \<Rightarrow> u8 list option" where
  "value_randomness self = value_field self"

text \<open>
  \<open>sign\<close> (test only) signs the same message with \<open>native_tbls_sign\<close>, the parameter
  \<open>tbls_sign\<close>.
\<close>

definition sign :: "(u64 \<Rightarrow> u8 list \<Rightarrow> u8 list) \<Rightarrow> Randomness \<Rightarrow> u8 list" where
  "sign tbls_sign self =
     (let msg = to_bytes Domain_tag (epoch_field self) (object_id (id_field self))
      in tbls_sign (epoch_field self) msg)"

subsection \<open>The lifetime of an object\<close>

text \<open>
  An object lives from \<open>new\<close> to \<open>destroy\<close>. In between, any of the module's public
  functions may be called on it, in any order and by anyone: the ownership rules of the
  runtime only remove some of these sequences. A call of \<open>set\<close> that aborts leaves the
  object as the aborted call left it.
\<close>

datatype op =
    Op_transfer address
  | Op_share_object
  | Op_set "u8 list"
  | Op_destroy
  | Op_epoch
  | Op_value

datatype lifecycle = Live ownership Randomness | Deleted

fun step :: "(u64 \<Rightarrow> u8 list \<Rightarrow> u8 list \<Rightarrow> bool) \<Rightarrow> lifecycle \<Rightarrow> op \<Rightarrow> lifecycle" where
  "step verify Deleted x = Deleted"
| "step verify (Live ow r) (Op_transfer a) = (case transfer r a of (ow', r') \<Rightarrow> Live ow' r')"
| "step verify (Live ow r) Op_share_object = (case share_object r of (ow', r') \<Rightarrow> Live ow' r')"
| "step verify (Live ow r) (Op_set sig) = Live ow (self_after (set_randomness verify r sig))"
| "step verify (Live ow r) Op_destroy = (case destroy r of i \<Rightarrow> Deleted)"
| "step verify (Live ow r) Op_epoch = (case epoch r of e \<Rightarrow> Live ow r)"
| "step verify (Live ow r) Op_value = (case value_randomness r of v \<Rightarrow> Live ow r)"

text \<open>The states an object goes through under a sequence of calls, the first one included.\<close>

fun trace :: "(u64 \<Rightarrow> u8 list \<Rightarrow> u8 list \<Rightarrow> bool) \<Rightarrow> lifecycle \<Rightarrow> op list \<Rightarrow> lifecycle list" where
  "trace verify s [] = [s]"
| "trace verify s (x # xs) = s # trace verify (step verify s x) xs"

text \<open>The \<open>value\<close> field along a list of states, while the object exists.\<close>

fun live_values :: "lifecycle list \<Rightarrow> u8 list option list" where
  "live_values [] = []"
| "live_values (Live ow r # ss) = value_field r # live_values ss"
| "live_values (Deleted # ss) = live_values ss"

text \<open>How many times consecutive entries of a list differ.\<close>

fun changes :: "'a list \<Rightarrow> nat" where
  "changes (x # y # xs) = (if x \<noteq> y then 1 else 0) + changes (y # xs)"
| "changes xs = 0"

subsection \<open>The message as the spec words it\<close>

text \<open>
  The spec's scenario writes the message of an object as
  \<open>"randomness" || be64(epoch) || bytes(id)\<close>, \<open>be64\<close> being the big-endian encoding in
  64 bits: the most significant byte first.
\<close>

definition spec_be64 :: "u64 \<Rightarrow> u8 list" where
  "spec_be64 w = map (\<lambda>k. ucast (drop_bit (8 * (7 - k)) w)) [0..<8]"

definition spec_message :: "u64 \<Rightarrow> ID \<Rightarrow> u8 list" where
  "spec_message e i = map of_char ''randomness'' @ spec_be64 e @ bytes i"

subsection \<open>A fake signer and the objects of the spec's scenario\<close>

text \<open>
  A deterministic signer to run the module with, and the verifier that accepts what it
  signs; a context at epoch \<open>7\<close> whose object space holds the identity \<open>41\<close>, so that
  the next identities are \<open>42\<close> and \<open>43\<close>; the objects \<open>O\<close> (\<open>id = 42\<close>, \<open>epoch = 7\<close>) and
  \<open>O2\<close> (\<open>id = 43\<close>, \<open>epoch = 7\<close>) of the scenario.
\<close>

definition fake_sign :: "u64 \<Rightarrow> u8 list \<Rightarrow> u8 list" where
  "fake_sign e msg = rev msg"

definition fake_verify :: "u64 \<Rightarrow> u8 list \<Rightarrow> u8 list \<Rightarrow> bool" where
  "fake_verify e msg sig = (sig = fake_sign e msg)"

definition scenario_ctx :: TxContext where
  "scenario_ctx = \<lparr>current_epoch = 7, object_space = [\<lparr>bytes = replicate 19 0 @ [41]\<rparr>]\<rparr>"

definition scenario_O :: Randomness where
  "scenario_O =
     \<lparr>id_field = \<lparr>uid_id = \<lparr>bytes = replicate 19 0 @ [42]\<rparr>\<rparr>, epoch_field = 7,
      value_field = None\<rparr>"

definition scenario_O2 :: Randomness where
  "scenario_O2 =
     \<lparr>id_field = \<lparr>uid_id = \<lparr>bytes = replicate 19 0 @ [43]\<rparr>\<rparr>, epoch_field = 7,
      value_field = None\<rparr>"

section \<open>Properties\<close>

subsection \<open>Encodings\<close>

lemma length_le_bytes: "length (le_bytes n w) = n"
  by (induction n arbitrary: w) simp_all

lemma le_bytes_nth: "k < n \<Longrightarrow> le_bytes n w ! k = ucast (drop_bit (8 * k) w)"
proof (induction n arbitrary: w k)
  case 0
  then show ?case by simp
next
  case (Suc n)
  show ?case
  proof (cases k)
    case 0
    then show ?thesis by simp
  next
    case (Suc j)
    with Suc.prems have "j < n" by simp
    from Suc.IH [OF this, of "drop_bit 8 w"] Suc show ?thesis
      by (simp add: add.commute)
  qed
qed

lemma le_bytes_8:
  "le_bytes 8 w =
     [ucast w, ucast (drop_bit 8 w), ucast (drop_bit 16 w), ucast (drop_bit 24 w),
      ucast (drop_bit 32 w), ucast (drop_bit 40 w), ucast (drop_bit 48 w),
      ucast (drop_bit 56 w)]"
  by (simp add: eval_nat_numeral)

text \<open>The eight bytes determine the word: bit \<open>n\<close> of the word is bit \<open>n mod 8\<close> of byte \<open>n div 8\<close>.\<close>

lemma le_bytes_8_inject:
  assumes "le_bytes 8 v = le_bytes 8 w"
  shows "v = w"
proof (rule bit_word_eqI)
  fix n
  assume "n < LENGTH(64)"
  then have k: "n div 8 < 8" by simp
  have "le_bytes 8 v ! (n div 8) = le_bytes 8 w ! (n div 8)"
    using assms by simp
  with k have "(ucast (drop_bit (8 * (n div 8)) v) :: u8) = ucast (drop_bit (8 * (n div 8)) w)"
    by (simp add: le_bytes_nth)
  then have "bit (ucast (drop_bit (8 * (n div 8)) v) :: u8) (n mod 8)
           = bit (ucast (drop_bit (8 * (n div 8)) w) :: u8) (n mod 8)"
    by simp
  then show "bit v n = bit w n"
    by (simp add: bit_ucast_iff bit_drop_bit_eq)
qed

lemma Domain_tag_bytes: "Domain_tag = [0x72, 0x61, 0x6e, 0x64, 0x6f, 0x6d, 0x6e, 0x65, 0x73, 0x73]"
  by (simp add: Domain_tag_def)

lemma to_bytes_append: "to_bytes d e i = d @ le_bytes 8 e @ bytes i"
  by (simp add: to_bytes_def vector_append_def bcs_to_bytes_u64_def id_to_bytes_def
      bcs_to_bytes_address_def)

lemma to_bytes_inject:
  assumes "to_bytes d e1 i1 = to_bytes d e2 i2"
  shows "e1 = e2 \<and> i1 = i2"
proof -
  from assms have "le_bytes 8 e1 @ bytes i1 = le_bytes 8 e2 @ bytes i2"
    by (simp add: to_bytes_append)
  then have "le_bytes 8 e1 = le_bytes 8 e2" and "bytes i1 = bytes i2"
    by (simp_all add: length_le_bytes)
  then show ?thesis
    by (simp add: le_bytes_8_inject)
qed

lemma length_sha3_256: "length (sha3_256 m) = 32"
  by (simp add: sha3_256_def Let_def length_le_bytes)

subsection \<open>The allocation of identities\<close>

declare nat_to_bytes.simps [simp del]

lemma address_to_nat_snoc: "address_to_nat (a @ [b]) = 256 * address_to_nat a + unat b"
  by (simp add: address_to_nat_def)

lemma address_to_nat_zeros: "address_to_nat (replicate k 0 @ a) = address_to_nat a"
  by (induction k) (simp_all add: address_to_nat_def)

lemma address_to_nat_byte: "address_to_nat (replicate k 0 @ [b]) = unat b"
  by (simp add: address_to_nat_zeros) (simp add: address_to_nat_def)

lemma unat_byte: "n < 256 \<Longrightarrow> unat (of_nat n :: u8) = n"
  by (simp add: unat_of_nat)

text \<open>The number of an address that was written from a number is that number.\<close>

lemma address_to_nat_bytes: "address_to_nat (nat_to_bytes n) = n"
proof (induction n rule: nat_to_bytes.induct)
  case (1 n)
  show ?case
  proof (cases "n < 256")
    case True
    then show ?thesis
      by (subst nat_to_bytes.simps) (simp add: address_to_nat_def unat_byte)
  next
    case False
    with 1 have "address_to_nat (nat_to_bytes (n div 256)) = n div 256" by simp
    with False show ?thesis
      by (subst nat_to_bytes.simps) (simp add: address_to_nat_snoc unat_byte)
  qed
qed

lemma address_to_nat_address: "address_to_nat (nat_to_address n) = n"
  by (simp add: nat_to_address_def address_to_nat_zeros address_to_nat_bytes)

lemma largest_identity_bound:
  "i \<in> set ids \<Longrightarrow> address_to_nat (bytes i) \<le> largest_identity ids"
  by (induction ids) (auto simp add: largest_identity_def)

text \<open>
  The identity allocated is not in the object space: its number is above the number of
  every identity there.
\<close>

lemma unused_identity_unused: "unused_identity ids \<notin> set ids"
proof
  assume "unused_identity ids \<in> set ids"
  then have "address_to_nat (bytes (unused_identity ids)) \<le> largest_identity ids"
    by (rule largest_identity_bound)
  then show False
    by (simp add: unused_identity_def address_to_nat_address)
qed

lemma nat_to_address_byte:
  "0 < n \<Longrightarrow> n < 256 \<Longrightarrow> nat_to_address n = replicate 19 0 @ [of_nat n]"
  by (simp add: nat_to_address_def nat_to_bytes.simps [of n])

lemma unused_identity_after_41:
  "unused_identity [\<lparr>bytes = replicate 19 0 @ [41]\<rparr>] = \<lparr>bytes = replicate 19 0 @ [42]\<rparr>"
  by (simp add: unused_identity_def largest_identity_def address_to_nat_byte
      nat_to_address_byte)

lemma unused_identity_after_42:
  "unused_identity [\<lparr>bytes = replicate 19 0 @ [42]\<rparr>, \<lparr>bytes = replicate 19 0 @ [41]\<rparr>] =
     \<lparr>bytes = replicate 19 0 @ [43]\<rparr>"
  by (simp add: unused_identity_def largest_identity_def address_to_nat_byte
      nat_to_address_byte)

subsection \<open>\<open>set\<close>, case by case\<close>

lemma set_randomness_cases:
  "set_randomness verify self sig =
     (if value_field self \<noteq> None
      then \<lparr>ended = Inl EAlreadySet, self_after = self, verifier_calls = []\<rparr>
      else if verify (epoch_field self)
                (to_bytes Domain_tag (epoch_field self) (object_id (id_field self))) sig
      then \<lparr>ended = Inr (), self_after = self\<lparr>value_field := Some (sha3_256 sig)\<rparr>,
            verifier_calls =
              [(epoch_field self,
                to_bytes Domain_tag (epoch_field self) (object_id (id_field self)), sig)]\<rparr>
      else \<lparr>ended = Inl EInvalidSignature, self_after = self,
            verifier_calls =
              [(epoch_field self,
                to_bytes Domain_tag (epoch_field self) (object_id (id_field self)), sig)]\<rparr>)"
  by (simp add: set_randomness_def Let_def Option.is_none_def)

lemma abort_codes_differ: "EAlreadySet \<noteq> EInvalidSignature"
  by (simp add: EAlreadySet_def EInvalidSignature_def)

subsection \<open>The scenario\<close>

lemma zeros_19: "replicate 19 (0 :: u8) = [0, 0, 0, 0, 0, 0, 0, 0, 0, 0, 0, 0, 0, 0, 0, 0, 0, 0, 0]"
  by (simp add: numeral_eq_Suc)

lemma message_O:
  "to_bytes Domain_tag (epoch_field scenario_O) (object_id (id_field scenario_O)) =
     [0x72, 0x61, 0x6e, 0x64, 0x6f, 0x6d, 0x6e, 0x65, 0x73, 0x73,
      7, 0, 0, 0, 0, 0, 0, 0,
      0, 0, 0, 0, 0, 0, 0, 0, 0, 0, 0, 0, 0, 0, 0, 0, 0, 0, 0, 42]"
  by (simp add: to_bytes_append Domain_tag_bytes le_bytes_8 scenario_O_def object_id_def
      zeros_19)

lemma message_O2:
  "to_bytes Domain_tag (epoch_field scenario_O2) (object_id (id_field scenario_O2)) =
     [0x72, 0x61, 0x6e, 0x64, 0x6f, 0x6d, 0x6e, 0x65, 0x73, 0x73,
      7, 0, 0, 0, 0, 0, 0, 0,
      0, 0, 0, 0, 0, 0, 0, 0, 0, 0, 0, 0, 0, 0, 0, 0, 0, 0, 0, 43]"
  by (simp add: to_bytes_append Domain_tag_bytes le_bytes_8 scenario_O2_def object_id_def
      zeros_19)

lemma sign_O:
  "sign fake_sign scenario_O =
     [42, 0, 0, 0, 0, 0, 0, 0, 0, 0, 0, 0, 0, 0, 0, 0, 0, 0, 0, 0,
      0, 0, 0, 0, 0, 0, 0, 7,
      0x73, 0x73, 0x65, 0x6e, 0x6d, 0x6f, 0x64, 0x6e, 0x61, 0x72]"
  by (simp add: sign_def fake_sign_def message_O)

lemma set_O_accepted:
  "set_randomness fake_verify scenario_O (sign fake_sign scenario_O) =
     \<lparr>ended = Inr (),
      self_after = scenario_O\<lparr>value_field := Some (sha3_256 (sign fake_sign scenario_O))\<rparr>,
      verifier_calls =
        [(epoch_field scenario_O,
          to_bytes Domain_tag (epoch_field scenario_O) (object_id (id_field scenario_O)),
          sign fake_sign scenario_O)]\<rparr>"
proof -
  have "value_field scenario_O = None"
    by (simp add: scenario_O_def)
  moreover have "fake_verify (epoch_field scenario_O)
      (to_bytes Domain_tag (epoch_field scenario_O) (object_id (id_field scenario_O)))
      (sign fake_sign scenario_O)"
    by (simp add: fake_verify_def sign_def)
  ultimately show ?thesis
    by (simp add: set_randomness_cases)
qed

lemma set_O_rejected:
  "set_randomness fake_verify scenario_O [0] =
     \<lparr>ended = Inl EInvalidSignature, self_after = scenario_O,
      verifier_calls =
        [(epoch_field scenario_O,
          to_bytes Domain_tag (epoch_field scenario_O) (object_id (id_field scenario_O)),
          [0])]\<rparr>"
proof -
  have "value_field scenario_O = None"
    by (simp add: scenario_O_def)
  moreover have "\<not> fake_verify (epoch_field scenario_O)
      (to_bytes Domain_tag (epoch_field scenario_O) (object_id (id_field scenario_O))) [0]"
    by (simp add: fake_verify_def fake_sign_def message_O)
  ultimately show ?thesis
    by (simp add: set_randomness_cases)
qed

subsection \<open>The lifetime of an object\<close>

lemma step_Live_value:
  assumes "step verify (Live ow r) x = Live ow' r'"
  shows "value_field r' = value_field r
       \<or> (value_field r = None \<and> (\<exists>sig. x = Op_set sig \<and> value_field r' = Some (sha3_256 sig)))"
  using assms
  by (cases x)
     (auto simp add: transfer_def transfer_transfer_def share_object_def
        transfer_share_object_def set_randomness_cases split: if_splits)

lemma live_values_Deleted: "live_values (trace verify Deleted xs) = []"
  by (induction xs) simp_all

lemma live_values_Live:
  "live_values (trace verify (Live ow r) xs) =
     value_field r #
     (case xs of [] \<Rightarrow> []
      | y # ys \<Rightarrow> live_values (trace verify (step verify (Live ow r) y) ys))"
  by (cases xs) simp_all

text \<open>A value that is present is the same in the next state, if there is one.\<close>

lemma live_values_kept:
  "Suc k < length (live_values (trace verify s xs)) \<Longrightarrow>
   live_values (trace verify s xs) ! k = Some v \<Longrightarrow>
   live_values (trace verify s xs) ! Suc k = Some v"
proof (induction xs arbitrary: s k)
  case Nil
  then show ?case by (cases s) simp_all
next
  case (Cons x xs)
  show ?case
  proof (cases s)
    case Deleted
    with Cons.prems show ?thesis by (simp add: live_values_Deleted)
  next
    case (Live ow r)
    show ?thesis
    proof (cases "step verify (Live ow r) x")
      case Deleted
      with Cons.prems Live show ?thesis by (simp add: live_values_Deleted)
    next
      case next_live: (Live ow' r')
      have unfolded: "live_values (trace verify s (x # xs)) =
                 value_field r # live_values (trace verify (Live ow' r') xs)"
        using Live next_live by simp
      show ?thesis
      proof (cases k)
        case 0
        with Cons.prems unfolded have "value_field r = Some v" by simp
        with step_Live_value [OF next_live] have "value_field r' = Some v" by auto
        with 0 unfolded show ?thesis by (simp add: live_values_Live)
      next
        case (Suc j)
        with Cons.prems unfolded
        have "Suc j < length (live_values (trace verify (Live ow' r') xs))"
          and "live_values (trace verify (Live ow' r') xs) ! j = Some v" by simp_all
        from Cons.IH [OF this] Suc unfolded show ?thesis by simp
      qed
    qed
  qed
qed

lemma changes_constant: "set xs \<subseteq> {a} \<Longrightarrow> changes xs = 0"
  by (induction xs rule: changes.induct) auto

text \<open>Once the value is present, it is the value of every later state.\<close>

lemma live_values_settled:
  "(case s of Live ow r \<Rightarrow> value_field r = Some v | Deleted \<Rightarrow> True) \<Longrightarrow>
   set (live_values (trace verify s xs)) \<subseteq> {Some v}"
proof (induction xs arbitrary: s)
  case Nil
  then show ?case by (cases s) simp_all
next
  case (Cons x xs)
  show ?case
  proof (cases s)
    case Deleted
    then show ?thesis by (simp add: live_values_Deleted)
  next
    case (Live ow r)
    with Cons.prems have v: "value_field r = Some v" by simp
    have "case step verify s x of Live ow' r' \<Rightarrow> value_field r' = Some v | Deleted \<Rightarrow> True"
      using step_Live_value [of verify ow r x] v Live by (auto split: lifecycle.splits)
    from Cons.IH [OF this] Live v show ?thesis by simp
  qed
qed

lemma changes_live_values: "changes (live_values (trace verify s xs)) \<le> 1"
proof (induction xs arbitrary: s)
  case Nil
  then show ?case by (cases s) simp_all
next
  case (Cons x xs)
  show ?case
  proof (cases s)
    case Deleted
    then show ?thesis by (simp add: live_values_Deleted)
  next
    case (Live ow r)
    show ?thesis
    proof (cases "step verify (Live ow r) x")
      case Deleted
      with Live show ?thesis by (simp add: live_values_Deleted)
    next
      case next_live: (Live ow' r')
      define rest where "rest =
        (case xs of [] \<Rightarrow> []
         | y # ys \<Rightarrow> live_values (trace verify (step verify (Live ow' r') y) ys))"
      have later: "live_values (trace verify (Live ow' r') xs) = value_field r' # rest"
        unfolding rest_def by (rule live_values_Live)
      have whole: "live_values (trace verify s (x # xs)) = value_field r # value_field r' # rest"
        using Live next_live later by simp
      show ?thesis
      proof (cases "value_field r' = value_field r")
        case True
        with whole later Cons.IH [of "Live ow' r'"] show ?thesis by simp
      next
        case False
        with step_Live_value [OF next_live]
        obtain sig where "value_field r' = Some (sha3_256 sig)" by auto
        then have "set (live_values (trace verify (Live ow' r') xs)) \<subseteq> {Some (sha3_256 sig)}"
          by (intro live_values_settled) simp
        then have "changes (live_values (trace verify (Live ow' r') xs)) = 0"
          by (rule changes_constant)
        with whole later show ?thesis by simp
      qed
    qed
  qed
qed

text \<open>The invariant of the stored value: a value that is present has 32 bytes.\<close>

lemma live_values_digest:
  "(case s of Live ow r \<Rightarrow> (\<forall>b. value_field r = Some b \<longrightarrow> length b = 32) | Deleted \<Rightarrow> True) \<Longrightarrow>
   Some b \<in> set (live_values (trace verify s xs)) \<Longrightarrow> length b = 32"
proof (induction xs arbitrary: s)
  case Nil
  then show ?case by (cases s) simp_all
next
  case (Cons x xs)
  show ?case
  proof (cases s)
    case Deleted
    with Cons.prems show ?thesis by (simp add: live_values_Deleted)
  next
    case (Live ow r)
    have "case step verify s x of
            Live ow' r' \<Rightarrow> (\<forall>b. value_field r' = Some b \<longrightarrow> length b = 32)
          | Deleted \<Rightarrow> True"
      using step_Live_value [of verify ow r x] Cons.prems(1) Live
      by (auto split: lifecycle.splits simp add: length_sha3_256)
    from Cons.IH [OF this] Cons.prems Live show ?thesis by auto
  qed
qed

text \<open>
  The run of the scenario used below: \<open>O\<close> is transferred, a call of \<open>set\<close> with a wrong
  signature aborts, the call with the signature of \<open>O\<close> sets the value, a second such
  call aborts, the value is read, the object is shared and at last destroyed.
\<close>

lemma scenario_values:
  "live_values (trace fake_verify (Live InTransaction scenario_O)
     [Op_transfer [1], Op_set [0], Op_set (sign fake_sign scenario_O),
      Op_set (sign fake_sign scenario_O), Op_value, Op_share_object, Op_destroy, Op_epoch]) =
   [None, None, None,
    Some (sha3_256 (sign fake_sign scenario_O)), Some (sha3_256 (sign fake_sign scenario_O)),
    Some (sha3_256 (sign fake_sign scenario_O)), Some (sha3_256 (sign fake_sign scenario_O))]"
proof -
  have rejected: "self_after (set_randomness fake_verify scenario_O [0]) = scenario_O"
    by (simp add: set_O_rejected)
  have again: "self_after (set_randomness fake_verify
      (scenario_O\<lparr>value_field := Some (sha3_256 (sign fake_sign scenario_O))\<rparr>)
      (sign fake_sign scenario_O)) =
      scenario_O\<lparr>value_field := Some (sha3_256 (sign fake_sign scenario_O))\<rparr>"
    by (simp add: set_randomness_cases)
  have none: "value_field scenario_O = None"
    by (simp add: scenario_O_def)
  show ?thesis
    by (simp add: transfer_def transfer_transfer_def share_object_def
        transfer_share_object_def rejected set_O_accepted again none)
qed

section \<open>The claims\<close>

text \<open>
  C1. For every object whose value is absent and every signature that the verifier
  accepts for the object's epoch and message, \<open>set\<close> returns normally, and afterwards
  the object's value is \<open>Some\<close> of the SHA3-256 digest of the signature, which has 32
  bytes; no other field has changed. What is stored is the hash, not the signature: a
  signature that has not 32 bytes is never the stored value.
\<close>

theorem set_accepted:
  assumes "value_randomness self = None"
    and "verify (epoch self) (to_bytes Domain_tag (epoch self) (object_id (id_field self))) sig"
  shows "ended (set_randomness verify self sig) = Inr ()
     \<and> self_after (set_randomness verify self sig) = self\<lparr>value_field := Some (sha3_256 sig)\<rparr>
     \<and> value_randomness (self_after (set_randomness verify self sig)) = Some (sha3_256 sig)
     \<and> length (sha3_256 sig) = 32
     \<and> (length sig \<noteq> 32 \<longrightarrow>
          value_randomness (self_after (set_randomness verify self sig)) \<noteq> Some sig)"
  using assms length_sha3_256 [of sig]
  by (auto simp add: set_randomness_cases value_randomness_def epoch_def)

theorem set_accepted_witness:
  "value_randomness scenario_O = None
   \<and> fake_verify (epoch scenario_O)
        (to_bytes Domain_tag (epoch scenario_O) (object_id (id_field scenario_O)))
        (sign fake_sign scenario_O)
   \<and> length (sign fake_sign scenario_O) = 38
   \<and> ended (set_randomness fake_verify scenario_O (sign fake_sign scenario_O)) = Inr ()
   \<and> value_randomness
        (self_after (set_randomness fake_verify scenario_O (sign fake_sign scenario_O))) =
      Some (sha3_256 (sign fake_sign scenario_O))
   \<and> length (sha3_256 (sign fake_sign scenario_O)) = 32
   \<and> value_randomness
        (self_after (set_randomness fake_verify scenario_O (sign fake_sign scenario_O))) \<noteq>
      Some (sign fake_sign scenario_O)"
proof -
  have absent: "value_randomness scenario_O = None"
    by (simp add: value_randomness_def scenario_O_def)
  have accepted: "fake_verify (epoch scenario_O)
      (to_bytes Domain_tag (epoch scenario_O) (object_id (id_field scenario_O)))
      (sign fake_sign scenario_O)"
    by (simp add: fake_verify_def sign_def epoch_def)
  have len: "length (sign fake_sign scenario_O) = 38"
    by (simp add: sign_O)
  have "length (sign fake_sign scenario_O) \<noteq> 32"
    by (simp add: len)
  with set_accepted [where verify = fake_verify and self = scenario_O
      and sig = "sign fake_sign scenario_O", OF absent accepted] absent accepted len
  show ?thesis
    by blast
qed

text \<open>
  C2. Along every sequence of calls of \<open>transfer\<close>, \<open>share_object\<close>, \<open>set\<close>, \<open>destroy\<close>
  and the accessors on an object, from any state of the object (the one \<open>new\<close> returns
  included), the \<open>value\<close> field changes at most once while the object exists, and a value
  that is present stays as it is in the next state: it neither becomes absent nor
  another value. So the one change there may be is from absent to present.
\<close>

theorem value_set_at_most_once:
  "changes (live_values (trace verify (Live ow r) ops)) \<le> 1
   \<and> (\<forall>k v. Suc k < length (live_values (trace verify (Live ow r) ops))
          \<and> live_values (trace verify (Live ow r) ops) ! k = Some v
        \<longrightarrow> live_values (trace verify (Live ow r) ops) ! Suc k = Some v)"
  using changes_live_values live_values_kept by blast

theorem value_set_at_most_once_witness:
  "live_values (trace fake_verify (Live InTransaction scenario_O)
     [Op_transfer [1], Op_set [0], Op_set (sign fake_sign scenario_O),
      Op_set (sign fake_sign scenario_O), Op_value, Op_share_object, Op_destroy, Op_epoch]) =
   [None, None, None,
    Some (sha3_256 (sign fake_sign scenario_O)), Some (sha3_256 (sign fake_sign scenario_O)),
    Some (sha3_256 (sign fake_sign scenario_O)), Some (sha3_256 (sign fake_sign scenario_O))]
   \<and> changes (live_values (trace fake_verify (Live InTransaction scenario_O)
     [Op_transfer [1], Op_set [0], Op_set (sign fake_sign scenario_O),
      Op_set (sign fake_sign scenario_O), Op_value, Op_share_object, Op_destroy, Op_epoch])) = 1
   \<and> live_values (trace fake_verify (Live InTransaction scenario_O)
     [Op_transfer [1], Op_set [0], Op_set (sign fake_sign scenario_O),
      Op_set (sign fake_sign scenario_O), Op_value, Op_share_object, Op_destroy, Op_epoch]) ! 4 =
     Some (sha3_256 (sign fake_sign scenario_O))"
proof -
  let ?h = "live_values (trace fake_verify (Live InTransaction scenario_O)
     [Op_transfer [1], Op_set [0], Op_set (sign fake_sign scenario_O),
      Op_set (sign fake_sign scenario_O), Op_value, Op_share_object, Op_destroy, Op_epoch])"
  let ?d = "sha3_256 (sign fake_sign scenario_O)"
  have h: "?h = [None, None, None, Some ?d, Some ?d, Some ?d, Some ?d]"
    by (rule scenario_values)
  have "Suc 3 < length ?h \<and> ?h ! 3 = Some ?d"
    unfolding h by simp
  with value_set_at_most_once [of fake_verify InTransaction scenario_O]
  have "changes ?h \<le> 1" and "?h ! Suc 3 = Some ?d"
    by blast+
  moreover have "changes ?h \<ge> 1"
    unfolding h by simp
  ultimately show ?thesis
    unfolding h by simp
qed

text \<open>
  C3 (as the spec has it, refuted). The spec gives the message of the object with
  \<open>id = 42\<close> and \<open>epoch = 7\<close> as \<open>"randomness" || be64(7) || bytes(42)\<close>, the epoch
  big-endian. The code writes the epoch with \<open>bcs::to_bytes\<close>: its first byte is \<open>7\<close>,
  where the big-endian encoding has \<open>0\<close>.
\<close>

theorem message_big_endian_counterexample:
  "to_bytes Domain_tag 7 \<lparr>bytes = replicate 19 0 @ [42]\<rparr> \<noteq>
   spec_message 7 \<lparr>bytes = replicate 19 0 @ [42]\<rparr>"
  by (simp add: to_bytes_append Domain_tag_bytes le_bytes_8 spec_message_def spec_be64_def
      upt_rec)

text \<open>
  C3 (amended). The message of an object is the domain tag \<open>"randomness"\<close> (10 bytes),
  followed by the BCS encoding of the epoch, which is its 8 bytes from the least
  significant to the most significant (little-endian), followed by the BCS encoding of
  the object's id, which is the bytes of its address. For \<open>epoch = 7\<close> the eight bytes
  are \<open>7, 0, 0, 0, 0, 0, 0, 0\<close>.
\<close>

theorem message_bytes:
  "to_bytes Domain_tag e i =
     [0x72, 0x61, 0x6e, 0x64, 0x6f, 0x6d, 0x6e, 0x65, 0x73, 0x73]
     @ [ucast e, ucast (drop_bit 8 e), ucast (drop_bit 16 e), ucast (drop_bit 24 e),
        ucast (drop_bit 32 e), ucast (drop_bit 40 e), ucast (drop_bit 48 e),
        ucast (drop_bit 56 e)]
     @ bytes i
   \<and> map of_char ''randomness'' = [0x72, 0x61, 0x6e, 0x64, 0x6f, 0x6d, 0x6e, 0x65, 0x73, 0x73 :: u8]
   \<and> length (to_bytes Domain_tag e i) = 10 + 8 + length (bytes i)"
  by (simp add: to_bytes_append Domain_tag_bytes le_bytes_8)

theorem message_bytes_witness:
  "to_bytes Domain_tag 7 \<lparr>bytes = replicate 19 0 @ [42]\<rparr> =
     [0x72, 0x61, 0x6e, 0x64, 0x6f, 0x6d, 0x6e, 0x65, 0x73, 0x73]
     @ [7, 0, 0, 0, 0, 0, 0, 0]
     @ (replicate 19 0 @ [42])"
  using message_bytes [of 7 "\<lparr>bytes = replicate 19 0 @ [42]\<rparr>"]
  by simp

text \<open>
  C4. For every object whose value is present and every signature, \<open>set\<close> aborts with
  \<open>EAlreadySet\<close> and the object is as it was: its id, its epoch and its value.
\<close>

theorem set_already_set:
  assumes "value_randomness self \<noteq> None"
  shows "ended (set_randomness verify self sig) = Inl EAlreadySet
     \<and> self_after (set_randomness verify self sig) = self
     \<and> id_field (self_after (set_randomness verify self sig)) = id_field self
     \<and> epoch (self_after (set_randomness verify self sig)) = epoch self
     \<and> value_randomness (self_after (set_randomness verify self sig)) = value_randomness self"
  using assms by (simp add: set_randomness_cases value_randomness_def)

theorem set_already_set_witness:
  "value_randomness
     (self_after (set_randomness fake_verify scenario_O (sign fake_sign scenario_O))) \<noteq> None
   \<and> ended (set_randomness fake_verify
        (self_after (set_randomness fake_verify scenario_O (sign fake_sign scenario_O)))
        (sign fake_sign scenario_O)) = Inl EAlreadySet
   \<and> self_after (set_randomness fake_verify
        (self_after (set_randomness fake_verify scenario_O (sign fake_sign scenario_O)))
        (sign fake_sign scenario_O)) =
      scenario_O\<lparr>value_field := Some (sha3_256 (sign fake_sign scenario_O))\<rparr>"
proof -
  have present: "value_randomness
     (self_after (set_randomness fake_verify scenario_O (sign fake_sign scenario_O))) \<noteq> None"
    by (simp add: set_O_accepted value_randomness_def)
  from set_already_set [OF present, of fake_verify "sign fake_sign scenario_O"] present
  show ?thesis
    by (simp add: set_O_accepted)
qed

text \<open>
  C5. For every object whose value is absent and every signature that the verifier
  rejects for the object's epoch and message, \<open>set\<close> aborts with \<open>EInvalidSignature\<close>, the
  object is as it was and its value is still absent. Nothing records the attempt: a later
  call of \<open>set\<close> on the object with a signature that the verifier accepts returns normally.
\<close>

theorem set_rejected:
  assumes "value_randomness self = None"
    and "\<not> verify (epoch self) (to_bytes Domain_tag (epoch self) (object_id (id_field self))) sig"
  shows "ended (set_randomness verify self sig) = Inl EInvalidSignature
     \<and> self_after (set_randomness verify self sig) = self
     \<and> value_randomness (self_after (set_randomness verify self sig)) = None
     \<and> (\<forall>sig'. verify (epoch self)
                 (to_bytes Domain_tag (epoch self) (object_id (id_field self))) sig' \<longrightarrow>
           ended (set_randomness verify (self_after (set_randomness verify self sig)) sig') =
           Inr ())"
  using assms by (simp add: set_randomness_cases value_randomness_def epoch_def)

theorem set_rejected_witness:
  "value_randomness scenario_O2 = None
   \<and> \<not> fake_verify (epoch scenario_O2)
        (to_bytes Domain_tag (epoch scenario_O2) (object_id (id_field scenario_O2)))
        (sign fake_sign scenario_O)
   \<and> fake_verify (epoch scenario_O2)
        (to_bytes Domain_tag (epoch scenario_O2) (object_id (id_field scenario_O2)))
        (sign fake_sign scenario_O2)
   \<and> ended (set_randomness fake_verify scenario_O2 (sign fake_sign scenario_O)) =
      Inl EInvalidSignature
   \<and> self_after (set_randomness fake_verify scenario_O2 (sign fake_sign scenario_O)) =
      scenario_O2
   \<and> ended (set_randomness fake_verify
        (self_after (set_randomness fake_verify scenario_O2 (sign fake_sign scenario_O)))
        (sign fake_sign scenario_O2)) = Inr ()"
proof -
  have absent: "value_randomness scenario_O2 = None"
    by (simp add: value_randomness_def scenario_O2_def)
  have rejected: "\<not> fake_verify (epoch scenario_O2)
      (to_bytes Domain_tag (epoch scenario_O2) (object_id (id_field scenario_O2)))
      (sign fake_sign scenario_O)"
    by (simp add: fake_verify_def fake_sign_def epoch_def message_O2 sign_O)
  have accepted: "fake_verify (epoch scenario_O2)
      (to_bytes Domain_tag (epoch scenario_O2) (object_id (id_field scenario_O2)))
      (sign fake_sign scenario_O2)"
    by (simp add: fake_verify_def sign_def epoch_def)
  from set_rejected [where verify = fake_verify and self = scenario_O2
      and sig = "sign fake_sign scenario_O", OF absent rejected] absent rejected accepted
  show ?thesis
    by blast
qed

text \<open>
  C6. For every marker value and every context, \<open>new\<close> returns (it has no abort) an
  object with a freshly allocated identity: one that is not in the object space of the
  context, and that the call adds to it, so that identities that were all different stay
  so. The epoch of the object is the current epoch of the context, which the call does
  not change, and its value is absent.
\<close>

theorem new_object:
  "\<exists>r ctx'. new w ctx = (r, ctx')
     \<and> object_id (id_field r) \<notin> set (object_space ctx)
     \<and> object_space ctx' = object_id (id_field r) # object_space ctx
     \<and> current_epoch ctx' = current_epoch ctx
     \<and> epoch r = tx_context_epoch ctx
     \<and> value_randomness r = None
     \<and> (distinct (object_space ctx) \<longrightarrow> distinct (object_space ctx'))"
  using unused_identity_unused [of "object_space ctx"]
  by (simp add: new_def object_new_def Let_def object_id_def epoch_def
      tx_context_epoch_def value_randomness_def)

theorem new_object_witness:
  "new () scenario_ctx =
     (scenario_O,
      \<lparr>current_epoch = 7,
       object_space = [object_id (id_field scenario_O), \<lparr>bytes = replicate 19 0 @ [41]\<rparr>]\<rparr>)
   \<and> new ()
       \<lparr>current_epoch = 7,
        object_space = [object_id (id_field scenario_O), \<lparr>bytes = replicate 19 0 @ [41]\<rparr>]\<rparr> =
     (scenario_O2,
      \<lparr>current_epoch = 7,
       object_space = [object_id (id_field scenario_O2), object_id (id_field scenario_O),
                       \<lparr>bytes = replicate 19 0 @ [41]\<rparr>]\<rparr>)
   \<and> distinct [object_id (id_field scenario_O), \<lparr>bytes = replicate 19 0 @ [41]\<rparr>]
   \<and> distinct [object_id (id_field scenario_O2), object_id (id_field scenario_O),
                 \<lparr>bytes = replicate 19 0 @ [41]\<rparr>]
   \<and> epoch scenario_O2 = 7
   \<and> value_randomness scenario_O2 = None"
proof -
  let ?ctx1 = "\<lparr>current_epoch = 7,
       object_space = [object_id (id_field scenario_O), \<lparr>bytes = replicate 19 0 @ [41]\<rparr>]\<rparr>"
  let ?ctx2 = "\<lparr>current_epoch = 7,
       object_space = [object_id (id_field scenario_O2), object_id (id_field scenario_O),
                       \<lparr>bytes = replicate 19 0 @ [41]\<rparr>]\<rparr>"
  have first: "new () scenario_ctx = (scenario_O, ?ctx1)"
    by (simp add: new_def object_new_def Let_def scenario_ctx_def scenario_O_def
        tx_context_epoch_def object_id_def unused_identity_after_41)
  have second: "new () ?ctx1 = (scenario_O2, ?ctx2)"
    by (simp add: new_def object_new_def Let_def scenario_O_def scenario_O2_def
        tx_context_epoch_def object_id_def unused_identity_after_42)
  have before: "distinct (object_space ?ctx1)"
    by (simp add: scenario_O_def object_id_def)
  from new_object [of "()" ?ctx1] second before
  have "distinct (object_space ?ctx2)"
    and "epoch scenario_O2 = tx_context_epoch ?ctx1"
    and "value_randomness scenario_O2 = None"
    by auto
  with first second before show ?thesis
    by (simp add: tx_context_epoch_def)
qed

text \<open>
  C7. Two objects with different ids have different messages, whether their epochs are
  equal or not: the domain tag and the encoding of the epoch have fixed sizes, so the
  bytes of the id start at the same place in both messages.
\<close>

theorem message_injective:
  assumes "object_id (id_field r1) \<noteq> object_id (id_field r2)"
  shows "to_bytes Domain_tag (epoch r1) (object_id (id_field r1)) \<noteq>
         to_bytes Domain_tag (epoch r2) (object_id (id_field r2))"
  using assms to_bytes_inject by blast

theorem message_injective_witness:
  "object_id (id_field scenario_O) \<noteq> object_id (id_field scenario_O2)
   \<and> epoch scenario_O = epoch scenario_O2
   \<and> to_bytes Domain_tag (epoch scenario_O) (object_id (id_field scenario_O)) \<noteq>
     to_bytes Domain_tag (epoch scenario_O2) (object_id (id_field scenario_O2))"
proof -
  have ids: "object_id (id_field scenario_O) \<noteq> object_id (id_field scenario_O2)"
    by (simp add: scenario_O_def scenario_O2_def object_id_def)
  have "epoch scenario_O = epoch scenario_O2"
    by (simp add: scenario_O_def scenario_O2_def epoch_def)
  with message_injective [OF ids] ids show ?thesis
    by blast
qed

text \<open>
  C8. \<open>transfer\<close> and \<open>share_object\<close> hand the object to the runtime as it is, with its
  new ownership: the epoch and the value (and the id) are unchanged.
\<close>

theorem transfer_share_frame:
  "transfer self a = (AddressOwner a, self)
   \<and> epoch (snd (transfer self a)) = epoch self
   \<and> value_randomness (snd (transfer self a)) = value_randomness self
   \<and> share_object self = (Shared, self)
   \<and> epoch (snd (share_object self)) = epoch self
   \<and> value_randomness (snd (share_object self)) = value_randomness self
   \<and> step verify (Live ow self) (Op_transfer a) = Live (AddressOwner a) self
   \<and> step verify (Live ow self) Op_share_object = Live Shared self"
  by (simp add: transfer_def transfer_transfer_def share_object_def transfer_share_object_def)

theorem transfer_share_frame_witness:
  "epoch (snd (transfer scenario_O [1])) = 7
   \<and> value_randomness (snd (transfer scenario_O [1])) = None
   \<and> epoch (snd (share_object scenario_O)) = 7
   \<and> value_randomness (snd (share_object scenario_O)) = None"
proof -
  have "epoch scenario_O = 7" and "value_randomness scenario_O = None"
    by (simp_all add: epoch_def value_randomness_def scenario_O_def)
  with transfer_share_frame [of scenario_O "[1]"] show ?thesis
    by simp
qed

text \<open>
  C9. For every object whose value is present, \<open>set\<close> aborts with \<open>EAlreadySet\<close>, which
  is not \<open>EInvalidSignature\<close>, without a call to the verifier: the run is the same
  for every verifier and every signature, and so for a signature that the verifier
  would reject.
\<close>

theorem set_already_set_first:
  assumes "value_randomness self \<noteq> None"
  shows "ended (set_randomness verify self sig) = Inl EAlreadySet
     \<and> ended (set_randomness verify self sig) \<noteq> Inl EInvalidSignature
     \<and> verifier_calls (set_randomness verify self sig) = []
     \<and> set_randomness verify self sig = set_randomness verify' self sig'"
  using assms abort_codes_differ
  by (simp add: set_randomness_cases value_randomness_def)

theorem set_already_set_first_witness:
  "value_randomness (scenario_O\<lparr>value_field := Some (sha3_256 (sign fake_sign scenario_O))\<rparr>)
     = Some (sha3_256 (sign fake_sign scenario_O))
   \<and> \<not> fake_verify 7
        (to_bytes Domain_tag 7 (object_id (id_field scenario_O))) [0]
   \<and> ended (set_randomness fake_verify
        (scenario_O\<lparr>value_field := Some (sha3_256 (sign fake_sign scenario_O))\<rparr>) [0]) =
      Inl EAlreadySet
   \<and> verifier_calls (set_randomness fake_verify
        (scenario_O\<lparr>value_field := Some (sha3_256 (sign fake_sign scenario_O))\<rparr>) [0]) = []"
proof -
  let ?s = "scenario_O\<lparr>value_field := Some (sha3_256 (sign fake_sign scenario_O))\<rparr>"
  have present: "value_randomness ?s \<noteq> None"
    by (simp add: value_randomness_def)
  have "epoch_field scenario_O = 7"
    by (simp add: scenario_O_def)
  with message_O have invalid: "\<not> fake_verify 7
      (to_bytes Domain_tag 7 (object_id (id_field scenario_O))) [0]"
    by (simp add: fake_verify_def fake_sign_def)
  from set_already_set_first [OF present, of fake_verify "[0]"] invalid show ?thesis
    by (simp add: value_randomness_def)
qed

text \<open>
  C10. Along every sequence of calls on an object that \<open>new\<close> returned, a value that is
  present has exactly 32 bytes, the size of the SHA3-256 digest. The calls keep this
  invariant from any state of an object that has it: only \<open>set\<close> writes \<open>value\<close>, and
  what it writes is a digest.
\<close>

theorem value_is_digest:
  "(Some b \<in> set (live_values
        (trace verify (Live InTransaction (fst (new w ctx))) ops))
      \<longrightarrow> length b = 32)
   \<and> ((\<forall>c. value_randomness r = Some c \<longrightarrow> length c = 32)
        \<and> Some b' \<in> set (live_values (trace verify (Live ow r) ops'))
      \<longrightarrow> length b' = 32)"
proof (intro conjI impI)
  assume "Some b \<in> set (live_values
    (trace verify (Live InTransaction (fst (new w ctx))) ops))"
  moreover have "value_field (fst (new w ctx)) = None"
    by (simp add: new_def object_new_def Let_def)
  ultimately show "length b = 32"
    using live_values_digest [of "Live InTransaction (fst (new w ctx))" b verify ops]
    by simp
next
  assume "(\<forall>c. value_randomness r = Some c \<longrightarrow> length c = 32)
        \<and> Some b' \<in> set (live_values (trace verify (Live ow r) ops'))"
  then show "length b' = 32"
    using live_values_digest [of "Live ow r" b' verify ops']
    by (simp add: value_randomness_def)
qed

theorem value_is_digest_witness:
  "fst (new () scenario_ctx) = scenario_O
   \<and> Some (sha3_256 (sign fake_sign scenario_O)) \<in> set (live_values
        (trace fake_verify (Live InTransaction (fst (new () scenario_ctx)))
          [Op_transfer [1], Op_set [0], Op_set (sign fake_sign scenario_O),
           Op_set (sign fake_sign scenario_O), Op_value, Op_share_object, Op_destroy,
           Op_epoch]))
   \<and> length (sha3_256 (sign fake_sign scenario_O)) = 32"
proof -
  let ?ops = "[Op_transfer [1], Op_set [0], Op_set (sign fake_sign scenario_O),
           Op_set (sign fake_sign scenario_O), Op_value, Op_share_object, Op_destroy,
           Op_epoch]"
  have created: "fst (new () scenario_ctx) = scenario_O"
    by (simp add: new_def object_new_def Let_def scenario_ctx_def scenario_O_def
        tx_context_epoch_def unused_identity_after_41)
  have reached: "Some (sha3_256 (sign fake_sign scenario_O)) \<in> set (live_values
        (trace fake_verify (Live InTransaction (fst (new () scenario_ctx)))
          ?ops))"
    unfolding created scenario_values by simp
  with value_is_digest [of "sha3_256 (sign fake_sign scenario_O)" fake_verify
      "()" scenario_ctx ?ops]
  have "length (sha3_256 (sign fake_sign scenario_O)) = 32"
    by blast
  with created reached show ?thesis
    by blast
qed

end
